theory Spec2Isabelle
  imports Main "HOL-Library.Word"
begin

section \<open>Value types of the state machine engine\<close>

text \<open>
  The examples under \<^verbatim>\<open>mission_task_examples/state_machine_example\<close> are written against the
  \<^verbatim>\<open>state_machine\<close> and \<^verbatim>\<open>state_machine_ros\<close> libraries. Their value types are embedded here
  as far as the examples use them.
\<close>

type_synonym cint = "32 word"
  \<comment> \<open>C++ \<^verbatim>\<open>int\<close>; read as two's complement with \<^term>\<open>sint\<close>.\<close>

type_synonym StateName = string
type_synonym StateType = string

text \<open>
  Modelled from the spec: the declaration of \<^verbatim>\<open>state_machine::Outcome\<close> is not among the
  sources. An outcome is a closed-but-extensible tag: success, preemption, failure, or a
  custom outcome declared at construction time.
\<close>

datatype Outcome = success | preemption | failure | custom string

text \<open>
  Modelled from the spec: the declarations of \<^verbatim>\<open>state_machine::Parameter\<close> and
  \<^verbatim>\<open>state_machine::Settings\<close> are not among the sources. A parameter is a name, a kind tag
  and a variant value; settings are an ordered sequence of parameters.
\<close>

datatype Value = IntValue cint | BoolValue bool | StringValue string

record Parameter =
  paramName :: string
  paramKind :: string
  paramValue :: Value

type_synonym Settings = "Parameter list"

text \<open>
  What goes wrong at run time without being an outcome: a null pointer is dereferenced
  (undefined behaviour in C++), a parameter that is not registered is read, or a
  parameter value is read at a kind it does not hold.
\<close>

datatype fault = NullPointerDereference | ParameterNotRegistered | BadValueAccess

definition addParameter :: "Parameter \<Rightarrow> Settings \<Rightarrow> Settings" where
  "addParameter p settings = settings @ [p]"

definition parameterIsRegistered :: "string \<Rightarrow> Settings \<Rightarrow> bool" where
  "parameterIsRegistered n settings = (find (\<lambda>p. paramName p = n) settings \<noteq> None)"

definition getParameter :: "string \<Rightarrow> Settings \<Rightarrow> fault + Parameter" where
  "getParameter n settings =
     (case find (\<lambda>p. paramName p = n) settings of
        None \<Rightarrow> Inl ParameterNotRegistered
      | Some p \<Rightarrow> Inr p)"

fun as_int :: "Value \<Rightarrow> fault + cint" where
  "as_int (IntValue v) = Inr v"
| "as_int _ = Inl BadValueAccess"

text \<open>\<^verbatim>\<open>std::to_string(int)\<close>: the decimal digits, with a minus sign for a negative value.\<close>

fun to_string_nat :: "nat \<Rightarrow> string" where
  "to_string_nat n =
     (if n < 10 then [''0123456789'' ! n]
      else to_string_nat (n div 10) @ [''0123456789'' ! (n mod 10)])"

definition to_string :: "cint \<Rightarrow> string" where
  "to_string v =
     (if sint v < 0 then CHR ''-'' # to_string_nat (nat (- sint v))
      else to_string_nat (nat (sint v)))"

section \<open>The world outside the process\<close>

text \<open>
  Modelled from the spec: \<^verbatim>\<open>state_machine_ros::ActionClient\<close>, the report interface of the
  context and \<^verbatim>\<open>param_io::getParam\<close> are not among the sources. The terminal results of a
  delegated action are succeeded, cancelled and faulted; a timeout is a further way
  for the client's \<^verbatim>\<open>execute\<close> to return.
\<close>

datatype ActionGoalOutcome = Succeeded | Cancelled | Faulted | TimedOut

definition actionGoalSucceeded :: "ActionGoalOutcome \<Rightarrow> bool" where
  "actionGoalSucceeded a = (a = Succeeded)"

definition actionGoalCancelled :: "ActionGoalOutcome \<Rightarrow> bool" where
  "actionGoalCancelled a = (a = Cancelled)"

fun toString :: "ActionGoalOutcome \<Rightarrow> string" where
  "toString Succeeded = ''succeeded''"
| "toString Cancelled = ''cancelled''"
| "toString Faulted = ''faulted''"
| "toString TimedOut = ''timed out''"

record Goal =
  goalOrder :: cint

record Feedback =
  feedbackSequence :: "cint list"

record Result =
  resultSequence :: "cint list"

record ServerReply =
  replyFeedback :: "Feedback list"
  replyOutcome :: ActionGoalOutcome
  replyResult :: Result

datatype Level = DEBUG | INFO | ERROR

text \<open>
  A report entry; \<open>m_value\<close> is the member \<^verbatim>\<open>value_\<close>, which holds the integer assigned to it.
\<close>

record Entry =
  entryLevel :: Level
  entryMessage :: string
  m_value :: "cint option"

text \<open>
  Every call that leaves the process is recorded: a read of the ROS parameter server, the
  creation and release of an action client on a topic, a goal sent and a cancellation
  sent on a topic.
\<close>

datatype IOEvent =
    ParamRead string
  | ClientCreated string
  | GoalSent string Goal
  | CancelSent string
  | ClientReleased string

record World =
  rosParameters :: "string \<rightharpoonup> string"
  actionServer :: "nat \<Rightarrow> Goal \<Rightarrow> ServerReply"
  reportEntries :: "Entry list"
  ioLog :: "IOEvent list"

fun isGoalSent :: "IOEvent \<Rightarrow> bool" where
  "isGoalSent (GoalSent _ _) = True"
| "isGoalSent _ = False"

definition goalsSent :: "World \<Rightarrow> IOEvent list" where
  "goalsSent w = filter isGoalSent (ioLog w)"

definition addEntry :: "Entry \<Rightarrow> World \<Rightarrow> World" where
  "addEntry e w = w\<lparr>reportEntries := reportEntries w @ [e]\<rparr>"

definition createEntry :: "Level \<Rightarrow> string \<Rightarrow> Entry" where
  "createEntry l m = \<lparr>entryLevel = l, entryMessage = m, m_value = None\<rparr>"

definition addSimpleEntry :: "Level \<Rightarrow> string \<Rightarrow> World \<Rightarrow> World" where
  "addSimpleEntry l m w = addEntry (createEntry l m) w"

text \<open>
  \<^verbatim>\<open>param_io::getParam(nh, key, parameter)\<close>: asks the parameter server for the key and
  overwrites the parameter when the key is there; otherwise the parameter keeps its value.
\<close>

definition getParam :: "string \<Rightarrow> string \<Rightarrow> World \<Rightarrow> string \<times> World" where
  "getParam key parameter w =
     (case rosParameters w key of
        None \<Rightarrow> parameter
      | Some v \<Rightarrow> v,
      w\<lparr>ioLog := ioLog w @ [ParamRead key]\<rparr>)"

section \<open>The leaf state \<^verbatim>\<open>CalculateFibonacciSeries\<close>\<close>

record ActionClient =
  clientTopic :: string
  clientResult :: "Result option"

text \<open>
  The members \<^verbatim>\<open>actionClient_\<close>, \<^verbatim>\<open>action_\<close>, \<^verbatim>\<open>order_\<close> and \<^verbatim>\<open>actionFeedback_\<close> of the class
  are the fields \<open>m_actionClient\<close>, \<open>m_action\<close>, \<open>m_order\<close> and \<open>m_actionFeedback\<close>; the name,
  the type and the nested name are those of the base class. The mutex is left to the
  section on locking.
\<close>

record CalculateFibonacciSeries =
  stateName :: StateName
  stateType :: StateType
  nestedName :: string
  outcomes :: "Outcome list"
  nominalOutcome :: "Outcome option"
  m_actionClient :: "ActionClient option"
  m_action :: string
  m_order :: "cint option"
  m_actionFeedback :: "Feedback option"

text \<open>
  Modelled from the spec: \<^verbatim>\<open>State::setOutcomes\<close> and \<^verbatim>\<open>State::setNominalOutcome\<close> are not
  among the sources. Every state has the outcomes preemption and failure besides the ones
  it declares.
\<close>

definition setOutcomes :: "Outcome list \<Rightarrow> CalculateFibonacciSeries \<Rightarrow> CalculateFibonacciSeries" where
  "setOutcomes os s = s\<lparr>outcomes := remdups (os @ [preemption, failure])\<rparr>"

definition setNominalOutcome :: "Outcome \<Rightarrow> CalculateFibonacciSeries \<Rightarrow> CalculateFibonacciSeries" where
  "setNominalOutcome out s = s\<lparr>nominalOutcome := Some out\<rparr>"

definition setOrder :: "cint \<Rightarrow> CalculateFibonacciSeries \<Rightarrow> CalculateFibonacciSeries" where
  "setOrder order s = s\<lparr>m_order := Some order\<rparr>"

definition getOrder :: "CalculateFibonacciSeries \<Rightarrow> cint option" where
  "getOrder s = m_order s"

definition constructImpl ::
  "CalculateFibonacciSeries \<Rightarrow> World \<Rightarrow> bool \<times> CalculateFibonacciSeries \<times> World" where
  "constructImpl s w =
     (let s1 = setOutcomes [success] s;
          s2 = setNominalOutcome success s1;
          (a, w') = getParam ''/state_machine_example/calculate_fibonacci_series/action'' (m_action s2) w
      in (True, s2\<lparr>m_action := a\<rparr>, w'))"

definition saveSettingsImpl :: "CalculateFibonacciSeries \<Rightarrow> Settings \<Rightarrow> Settings" where
  "saveSettingsImpl s settings =
     addParameter
       \<lparr>paramName = ''order'', paramKind = ''int'',
        paramValue = IntValue (case m_order s of None \<Rightarrow> 0 | Some v \<Rightarrow> v)\<rparr>
       settings"

definition loadSettingsImpl ::
  "Settings \<Rightarrow> CalculateFibonacciSeries \<Rightarrow> fault + bool \<times> CalculateFibonacciSeries" where
  "loadSettingsImpl settings s =
     (if parameterIsRegistered ''order'' settings then
        (case getParameter ''order'' settings of
           Inl e \<Rightarrow> Inl e
         | Inr p \<Rightarrow>
             (case as_int (paramValue p) of
                Inl e \<Rightarrow> Inl e
              | Inr v \<Rightarrow> Inr (True, s\<lparr>m_order := Some v\<rparr>)))
      else Inr (True, s))"

text \<open>
  Modelled from the spec: the public \<^verbatim>\<open>saveSettings\<close> and \<^verbatim>\<open>loadSettings\<close> of the base class
  are not among the sources. Saving emits the parameter sequence of the state into fresh
  settings; loading applies a saved sequence to the state.
\<close>

definition saveSettings :: "CalculateFibonacciSeries \<Rightarrow> Settings" where
  "saveSettings s = saveSettingsImpl s []"

definition loadSettings ::
  "Settings \<Rightarrow> CalculateFibonacciSeries \<Rightarrow> fault + bool \<times> CalculateFibonacciSeries" where
  "loadSettings settings s = loadSettingsImpl settings s"

type_synonym Inconsistencies = "string list"

definition apostrophe :: char where
  "apostrophe = CHR 0x27"

definition getInconsistenciesImpl :: "CalculateFibonacciSeries \<Rightarrow> Inconsistencies" where
  "getInconsistenciesImpl s =
     (if m_order s = None
      then [''The order of '' @ [apostrophe] @ nestedName s @ [apostrophe] @ '' has not been set.'']
      else [])"

definition getInconsistencies :: "CalculateFibonacciSeries \<Rightarrow> Inconsistencies" where
  "getInconsistencies s = getInconsistenciesImpl s"

definition feedbackCb :: "Feedback \<Rightarrow> CalculateFibonacciSeries \<Rightarrow> CalculateFibonacciSeries" where
  "feedbackCb feedback s = s\<lparr>m_actionFeedback := Some feedback\<rparr>"

definition runPreExecution ::
  "CalculateFibonacciSeries \<Rightarrow> World \<Rightarrow> CalculateFibonacciSeries \<times> World" where
  "runPreExecution s w =
     (let s1 = s\<lparr>m_actionFeedback := None\<rparr>
      in (s1\<lparr>m_actionClient := Some \<lparr>clientTopic = m_action s1, clientResult = None\<rparr>\<rparr>,
          w\<lparr>ioLog := ioLog w @ [ClientCreated (m_action s1)]\<rparr>))"

text \<open>
  \<^verbatim>\<open>ActionClient::execute(goal)\<close>: the goal is sent once on the client's topic, the reply of
  the server to its n-th goal is awaited, and the call returns the terminal outcome with
  the feedback received on the way; the result is kept in the client.
\<close>

definition clientExecute ::
  "Goal \<Rightarrow> ActionClient \<Rightarrow> World \<Rightarrow> ActionGoalOutcome \<times> Feedback list \<times> ActionClient \<times> World" where
  "clientExecute goal c w =
     (let reply = actionServer w (length (goalsSent w)) goal
      in (replyOutcome reply, replyFeedback reply,
          c\<lparr>clientResult := Some (replyResult reply)\<rparr>,
          w\<lparr>ioLog := ioLog w @ [GoalSent (clientTopic c) goal]\<rparr>))"

definition runMidExecution ::
  "CalculateFibonacciSeries \<Rightarrow> World \<Rightarrow> fault + Outcome \<times> CalculateFibonacciSeries \<times> World" where
  "runMidExecution s w =
     (case m_order s of
        None \<Rightarrow>
          Inr (failure, s,
               addSimpleEntry ERROR ''Failed to calculate Fibonacci series: The order has not been set.'' w)
      | Some order \<Rightarrow>
          (let w1 = addSimpleEntry DEBUG
                      (''Calculating Fibonacci series of order '' @ [apostrophe] @ to_string order
                         @ [apostrophe] @ '' ...'') w;
               goal = \<lparr>goalOrder = order\<rparr>
           in case m_actionClient s of
                None \<Rightarrow> Inl NullPointerDereference
              | Some c \<Rightarrow>
                  (let (actionGoalOutcome, fbs, c', w2) = clientExecute goal c w1;
                       s' = (foldl (\<lambda>t fb. feedbackCb fb t) s fbs)\<lparr>m_actionClient := Some c'\<rparr>
                   in if actionGoalSucceeded actionGoalOutcome then
                        (case clientResult c' of
                           None \<Rightarrow> Inl NullPointerDereference
                         | Some result \<Rightarrow>
                             (let entry = createEntry INFO
                                    (''Successfully calculated Fibonacci series of order '' @ [apostrophe]
                                       @ to_string order @ [apostrophe] @ ''.'');
                                  entry' = entry\<lparr>m_value :=
                                    Some (if resultSequence result = [] then 0
                                          else last (resultSequence result))\<rparr>
                              in Inr (success, s', addEntry entry' w2)))
                      else if actionGoalCancelled actionGoalOutcome then
                        Inr (preemption, s',
                             addSimpleEntry DEBUG
                               (''Calculating Fibonacci series of order '' @ [apostrophe] @ to_string order
                                  @ [apostrophe] @ '' was cancelled: '' @ toString actionGoalOutcome) w2)
                      else
                        Inr (failure, s',
                             addSimpleEntry ERROR
                               (''Failed to calculate Fibonacci series of order '' @ [apostrophe]
                                  @ to_string order @ [apostrophe] @ '': '' @ toString actionGoalOutcome) w2))))"

definition runPostExecution ::
  "CalculateFibonacciSeries \<Rightarrow> World \<Rightarrow> CalculateFibonacciSeries \<times> World" where
  "runPostExecution s w =
     (s\<lparr>m_actionClient := None\<rparr>,
      case m_actionClient s of
        None \<Rightarrow> w
      | Some c \<Rightarrow> w\<lparr>ioLog := ioLog w @ [ClientReleased (clientTopic c)]\<rparr>)"

definition onPreemptionRequest ::
  "CalculateFibonacciSeries \<Rightarrow> World \<Rightarrow> World" where
  "onPreemptionRequest s w =
     (case m_actionClient s of
        None \<Rightarrow> w
      | Some c \<Rightarrow> w\<lparr>ioLog := ioLog w @ [CancelSent (clientTopic c)]\<rparr>)"

text \<open>
  Modelled from the spec: \<^verbatim>\<open>State::execute\<close> is not among the sources. One execution runs
  pre-execution, mid-execution and post-execution in this order, post-execution on every
  exit path, and returns the outcome of mid-execution.
\<close>

definition execute ::
  "CalculateFibonacciSeries \<Rightarrow> World \<Rightarrow> fault + Outcome \<times> CalculateFibonacciSeries \<times> World" where
  "execute s w =
     (let (s1, w1) = runPreExecution s w
      in case runMidExecution s1 w1 of
           Inl e \<Rightarrow> Inl e
         | Inr (out, s2, w2) \<Rightarrow>
             (let (s3, w3) = runPostExecution s2 w2 in Inr (out, s3, w3)))"

section \<open>A preemption request while mid-execution waits\<close>

text \<open>
  \<^verbatim>\<open>runMidExecution\<close> in two parts, cut where the execution thread blocks in
  \<^verbatim>\<open>actionClient_->execute(goal)\<close>. \<open>beginMidExecution\<close> is the function up to the goal
  being sent: it has either returned already (the order is not set) or it waits for the
  terminal result of its goal, the k-th goal that the server receives. \<open>finishMidExecution\<close>
  is the rest of the function, from the terminal result on. Run one after the other they
  are \<open>runMidExecution\<close>.
\<close>

datatype MidExecution = Returned Outcome | Waiting cint ActionClient nat

definition beginMidExecution ::
  "CalculateFibonacciSeries \<Rightarrow> World \<Rightarrow> fault + MidExecution \<times> World" where
  "beginMidExecution s w =
     (case m_order s of
        None \<Rightarrow>
          Inr (Returned failure,
               addSimpleEntry ERROR ''Failed to calculate Fibonacci series: The order has not been set.'' w)
      | Some order \<Rightarrow>
          (let w1 = addSimpleEntry DEBUG
                      (''Calculating Fibonacci series of order '' @ [apostrophe] @ to_string order
                         @ [apostrophe] @ '' ...'') w;
               goal = \<lparr>goalOrder = order\<rparr>
           in case m_actionClient s of
                None \<Rightarrow> Inl NullPointerDereference
              | Some c \<Rightarrow>
                  Inr (Waiting order c (length (goalsSent w1)),
                       w1\<lparr>ioLog := ioLog w1 @ [GoalSent (clientTopic c) goal]\<rparr>)))"

definition finishMidExecution ::
  "cint \<Rightarrow> ActionClient \<Rightarrow> nat \<Rightarrow> CalculateFibonacciSeries \<Rightarrow> World
     \<Rightarrow> fault + Outcome \<times> CalculateFibonacciSeries \<times> World" where
  "finishMidExecution order c k s w2 =
     (let reply = actionServer w2 k \<lparr>goalOrder = order\<rparr>;
          actionGoalOutcome = replyOutcome reply;
          c' = c\<lparr>clientResult := Some (replyResult reply)\<rparr>;
          s' = (foldl (\<lambda>t fb. feedbackCb fb t) s (replyFeedback reply))\<lparr>m_actionClient := Some c'\<rparr>
      in if actionGoalSucceeded actionGoalOutcome then
           (case clientResult c' of
              None \<Rightarrow> Inl NullPointerDereference
            | Some result \<Rightarrow>
                (let entry = createEntry INFO
                       (''Successfully calculated Fibonacci series of order '' @ [apostrophe]
                          @ to_string order @ [apostrophe] @ ''.'');
                     entry' = entry\<lparr>m_value :=
                       Some (if resultSequence result = [] then 0
                             else last (resultSequence result))\<rparr>
                 in Inr (success, s', addEntry entry' w2)))
         else if actionGoalCancelled actionGoalOutcome then
           Inr (preemption, s',
                addSimpleEntry DEBUG
                  (''Calculating Fibonacci series of order '' @ [apostrophe] @ to_string order
                     @ [apostrophe] @ '' was cancelled: '' @ toString actionGoalOutcome) w2)
         else
           Inr (failure, s',
                addSimpleEntry ERROR
                  (''Failed to calculate Fibonacci series of order '' @ [apostrophe]
                     @ to_string order @ [apostrophe] @ '': '' @ toString actionGoalOutcome) w2))"

text \<open>
  One execution of the leaf during which another thread requests preemption while the
  execution thread waits for the result of its goal: pre-execution, mid-execution up to
  the goal being sent, \<^verbatim>\<open>onPreemptionRequest\<close> on the other thread, the rest of mid-execution
  with the terminal result that the server gives to the goal, post-execution. What the
  server answers to a goal that has been cancelled is left to the server of the world.
  When mid-execution returns without waiting, no request can arrive while it waits.
\<close>

definition executePreempted ::
  "CalculateFibonacciSeries \<Rightarrow> World \<Rightarrow> fault + Outcome \<times> CalculateFibonacciSeries \<times> World" where
  "executePreempted s w =
     (let (s1, w1) = runPreExecution s w
      in case beginMidExecution s1 w1 of
           Inl e \<Rightarrow> Inl e
         | Inr (Returned out, w2) \<Rightarrow>
             (let (s3, w3) = runPostExecution s1 w2 in Inr (out, s3, w3))
         | Inr (Waiting order c k, w2) \<Rightarrow>
             (let w3 = onPreemptionRequest s1 w2
              in case finishMidExecution order c k s1 w3 of
                   Inl e \<Rightarrow> Inl e
                 | Inr (out, s4, w4) \<Rightarrow>
                     (let (s5, w5) = runPostExecution s4 w4 in Inr (out, s5, w5))))"

section \<open>The factory\<close>

text \<open>
  The type strings are those of \<^verbatim>\<open>STATE_MACHINE_SPECIALIZE_TYPE_TO_STRING\<close> in the two headers.
\<close>

definition fibonacciType :: StateType where
  "fibonacciType = ''state_machine_example::CalculateFibonacciSeries''"

definition sequenceType :: StateType where
  "sequenceType = ''state_machine_example::CalculateTwoFibonacciSeriesSequentially''"

text \<open>
  The defaulted constructor of the leaf: the members take their initialisers from the
  header; the action topic is \<^verbatim>\<open>/fibonacci\<close>, no order, no client, no feedback.
\<close>

definition defaultFibonacci :: CalculateFibonacciSeries where
  "defaultFibonacci =
     \<lparr>stateName = [], stateType = [], nestedName = [], outcomes = [], nominalOutcome = None,
      m_actionClient = None, m_action = ''/fibonacci'', m_order = None, m_actionFeedback = None\<rparr>"

text \<open>
  Modelled from the spec: \<^verbatim>\<open>state_machine::Factory\<close> is not among the sources. The typed
  \<^verbatim>\<open>createState<CalculateFibonacciSeries>(name)\<close> builds an instance with the zero-argument
  constructor, gives it its name and type, and runs \<^verbatim>\<open>constructImpl\<close>; a \<^verbatim>\<open>constructImpl\<close>
  that returns false prevents the construction.
\<close>

definition createFibonacciState ::
  "StateName \<Rightarrow> World \<Rightarrow> CalculateFibonacciSeries option \<times> World" where
  "createFibonacciState n w =
     (let s = defaultFibonacci\<lparr>stateName := n, stateType := fibonacciType, nestedName := n\<rparr>;
          (ok, s', w') = constructImpl s w
      in (if ok then Some s' else None, w'))"

section \<open>The composite \<^verbatim>\<open>CalculateTwoFibonacciSeriesSequentially\<close>\<close>

text \<open>
  A child of a state machine is held through a pointer to the base class: it is a
  \<^verbatim>\<open>CalculateFibonacciSeries\<close> or a state of some other concrete type, of which only the name
  and the type are kept here.
\<close>

datatype StateBase =
    FibonacciState CalculateFibonacciSeries
  | OtherState StateName StateType

text \<open>A transition leads to a sibling or to a terminal outcome of the state machine.\<close>

datatype Target = ToState StateName | ToOutcome Outcome

type_synonym Transitions = "(Outcome \<times> Target) list"

record CalculateTwoFibonacciSeriesSequentially =
  smName :: StateName
  smType :: StateType
  smOutcomes :: "Outcome list"
  restartOnExecution :: bool
  states :: "(StateName \<times> StateBase \<times> Transitions) list"
  defaultInitialState :: "StateName option"
  activeState :: "StateName option"

definition name1 :: StateName where
  "name1 = ''CalculateFibonacciSeries1''"

definition name2 :: StateName where
  "name2 = ''CalculateFibonacciSeries2''"

definition defaultSequence :: CalculateTwoFibonacciSeriesSequentially where
  "defaultSequence =
     \<lparr>smName = [], smType = [], smOutcomes = [], restartOnExecution = True, states = [],
      defaultInitialState = None, activeState = None\<rparr>"

fun getName_base :: "StateBase \<Rightarrow> StateName" where
  "getName_base (FibonacciState s) = stateName s"
| "getName_base (OtherState n t) = n"

text \<open>
  Modelled from the spec: \<^verbatim>\<open>StateMachine::getState\<close>, \<^verbatim>\<open>addState\<close>,
  \<^verbatim>\<open>setDefaultInitialState\<close>, \<^verbatim>\<open>setRestartOnExecution\<close> and \<^verbatim>\<open>setOutcomes\<close> are not among the
  sources. The state machine owns its children by name, each with its transition map;
  \<^verbatim>\<open>getState\<close> yields the pointer to the child of that name, null when there is none.
\<close>

definition getState :: "StateName \<Rightarrow> CalculateTwoFibonacciSeriesSequentially \<Rightarrow> StateBase option" where
  "getState n c = map_option fst (map_of (states c) n)"

definition addState ::
  "StateBase \<Rightarrow> Transitions \<Rightarrow> CalculateTwoFibonacciSeriesSequentially
     \<Rightarrow> CalculateTwoFibonacciSeriesSequentially" where
  "addState st ts c = c\<lparr>states := states c @ [(getName_base st, st, ts)]\<rparr>"

definition setDefaultInitialState ::
  "StateName \<Rightarrow> CalculateTwoFibonacciSeriesSequentially \<Rightarrow> CalculateTwoFibonacciSeriesSequentially" where
  "setDefaultInitialState n c = c\<lparr>defaultInitialState := Some n\<rparr>"

definition setRestartOnExecution ::
  "bool \<Rightarrow> CalculateTwoFibonacciSeriesSequentially \<Rightarrow> CalculateTwoFibonacciSeriesSequentially" where
  "setRestartOnExecution b c = c\<lparr>restartOnExecution := b\<rparr>"

definition setOutcomes_seq ::
  "Outcome list \<Rightarrow> CalculateTwoFibonacciSeriesSequentially \<Rightarrow> CalculateTwoFibonacciSeriesSequentially" where
  "setOutcomes_seq os c = c\<lparr>smOutcomes := remdups (os @ [preemption, failure])\<rparr>"

text \<open>
  \<^verbatim>\<open>dynamic_cast<CalculateFibonacciSeries*>\<close>: null for a null pointer and for a state of
  another concrete type.
\<close>

fun dynamic_cast :: "StateBase option \<Rightarrow> CalculateFibonacciSeries option" where
  "dynamic_cast (Some (FibonacciState s)) = Some s"
| "dynamic_cast _ = None"

text \<open>A member call through the cast pointer changes the child in place.\<close>

definition updateState ::
  "StateName \<Rightarrow> CalculateFibonacciSeries \<Rightarrow> CalculateTwoFibonacciSeriesSequentially
     \<Rightarrow> CalculateTwoFibonacciSeriesSequentially" where
  "updateState n s c =
     c\<lparr>states := map (\<lambda>(k, st, ts). if k = n then (k, FibonacciState s, ts) else (k, st, ts)) (states c)\<rparr>"

definition setOrder_seq ::
  "cint \<Rightarrow> CalculateTwoFibonacciSeriesSequentially \<Rightarrow> fault + CalculateTwoFibonacciSeriesSequentially" where
  "setOrder_seq order c =
     (case dynamic_cast (getState name1 c) of
        None \<Rightarrow> Inl NullPointerDereference
      | Some s1 \<Rightarrow>
          (let c1 = updateState name1 (setOrder order s1) c
           in case dynamic_cast (getState name2 c1) of
                None \<Rightarrow> Inl NullPointerDereference
              | Some s2 \<Rightarrow> Inr (updateState name2 (setOrder order s2) c1)))"

definition getOrder_seq ::
  "CalculateTwoFibonacciSeriesSequentially \<Rightarrow> fault + cint option" where
  "getOrder_seq c =
     (case dynamic_cast (getState name1 c) of
        None \<Rightarrow> Inl NullPointerDereference
      | Some s1 \<Rightarrow> Inr (getOrder s1))"

definition constructImpl_seq ::
  "CalculateTwoFibonacciSeriesSequentially \<Rightarrow> World
     \<Rightarrow> bool \<times> CalculateTwoFibonacciSeriesSequentially \<times> World" where
  "constructImpl_seq c w =
     (let c1 = setOutcomes_seq [success] c;
          c2 = setRestartOnExecution True c1;
          (state1, w1) = createFibonacciState name1 w
      in case state1 of
           None \<Rightarrow> (False, c2, w1)
         | Some s1 \<Rightarrow>
             (let (state2, w2) = createFibonacciState name2 w1
              in case state2 of
                   None \<Rightarrow> (False, c2, w2)
                 | Some s2 \<Rightarrow>
                     (let c3 = addState (FibonacciState s1)
                                 [(success, ToState name2),
                                  (preemption, ToOutcome preemption),
                                  (failure, ToOutcome failure)] c2;
                          c4 = addState (FibonacciState s2)
                                 [(success, ToOutcome success),
                                  (preemption, ToOutcome preemption),
                                  (failure, ToOutcome failure)] c3;
                          c5 = setDefaultInitialState name1 c4
                      in (True, c5, w2))))"

definition saveSettingsImpl_seq ::
  "CalculateTwoFibonacciSeriesSequentially \<Rightarrow> Settings \<Rightarrow> fault + Settings" where
  "saveSettingsImpl_seq c settings =
     (case getOrder_seq c of
        Inl e \<Rightarrow> Inl e
      | Inr order \<Rightarrow>
          (case order of
             None \<Rightarrow> Inr settings
           | Some v \<Rightarrow>
               Inr (addParameter \<lparr>paramName = ''order'', paramKind = ''int'', paramValue = IntValue v\<rparr>
                      settings)))"

definition loadSettingsImpl_seq ::
  "Settings \<Rightarrow> CalculateTwoFibonacciSeriesSequentially
     \<Rightarrow> fault + bool \<times> CalculateTwoFibonacciSeriesSequentially" where
  "loadSettingsImpl_seq settings c =
     (if parameterIsRegistered ''order'' settings then
        (case getParameter ''order'' settings of
           Inl e \<Rightarrow> Inl e
         | Inr p \<Rightarrow>
             (case as_int (paramValue p) of
                Inl e \<Rightarrow> Inl e
              | Inr v \<Rightarrow>
                  (case setOrder_seq v c of
                     Inl e \<Rightarrow> Inl e
                   | Inr c' \<Rightarrow> Inr (True, c'))))
      else Inr (True, c))"

definition saveSettings_seq :: "CalculateTwoFibonacciSeriesSequentially \<Rightarrow> fault + Settings" where
  "saveSettings_seq c = saveSettingsImpl_seq c []"

definition loadSettings_seq ::
  "Settings \<Rightarrow> CalculateTwoFibonacciSeriesSequentially
     \<Rightarrow> fault + bool \<times> CalculateTwoFibonacciSeriesSequentially" where
  "loadSettings_seq settings c = loadSettingsImpl_seq settings c"

text \<open>
  Modelled from the spec: the typed \<^verbatim>\<open>createState\<close> of the factory for the composite, as
  for the leaf.
\<close>

definition createSequenceState ::
  "StateName \<Rightarrow> World \<Rightarrow> CalculateTwoFibonacciSeriesSequentially option \<times> World" where
  "createSequenceState n w =
     (let c = defaultSequence\<lparr>smName := n, smType := sequenceType\<rparr>;
          (ok, c', w') = constructImpl_seq c w
      in (if ok then Some c' else None, w'))"

text \<open>
  Modelled from the spec: \<^verbatim>\<open>Factory::createState(type, name)\<close> is not among the sources. It
  looks up the zero-argument constructor registered under the type, builds the instance
  and injects the context; it yields no instance when the type is not registered. The
  registered types are the two plugins of this package.
\<close>

datatype Instance =
    FibonacciInstance CalculateFibonacciSeries
  | SequenceInstance CalculateTwoFibonacciSeriesSequentially

fun getType :: "Instance \<Rightarrow> StateType" where
  "getType (FibonacciInstance s) = stateType s"
| "getType (SequenceInstance c) = smType c"

fun getName :: "Instance \<Rightarrow> StateName" where
  "getName (FibonacciInstance s) = stateName s"
| "getName (SequenceInstance c) = smName c"

definition registry :: "(StateType \<times> (StateName \<Rightarrow> World \<Rightarrow> Instance option \<times> World)) list" where
  "registry =
     [(fibonacciType,
         \<lambda>n w. (case createFibonacciState n w of (r, w') \<Rightarrow> (map_option FibonacciInstance r, w'))),
      (sequenceType,
         \<lambda>n w. (case createSequenceState n w of (r, w') \<Rightarrow> (map_option SequenceInstance r, w')))]"

definition createState :: "StateType \<Rightarrow> StateName \<Rightarrow> World \<Rightarrow> Instance option \<times> World" where
  "createState t n w =
     (case map_of registry t of
        None \<Rightarrow> (None, w)
      | Some build \<Rightarrow> build n w)"

section \<open>The transition engine\<close>

text \<open>
  Modelled from the spec: \<^verbatim>\<open>StateMachine::execute\<close> is not among the sources. The engine
  keeps a current child; it executes the current child to obtain its outcome and looks the
  outcome up in the transitions of that child; an entry that names a sibling makes the
  sibling current, an entry that is a terminal outcome is returned. An outcome with no
  entry is a failure with a diagnostic. The execution of a child is the parameter \<open>exec\<close>
  (the virtual call \<^verbatim>\<open>execute()\<close> on the child), the diagnostic is the parameter \<open>diag\<close>. The
  result carries the names of the children in the order in which they were executed. The
  loop need not end for every table, so it runs on fuel: \<open>None\<close> is an execution that has
  not returned.
\<close>

definition setChild ::
  "StateName \<Rightarrow> StateBase \<Rightarrow> CalculateTwoFibonacciSeriesSequentially
     \<Rightarrow> CalculateTwoFibonacciSeriesSequentially" where
  "setChild n st' c =
     c\<lparr>states := map (\<lambda>(k, st, ts). if k = n then (k, st', ts) else (k, st, ts)) (states c),
       activeState := Some n\<rparr>"

fun runStates ::
  "nat \<Rightarrow> (StateBase \<Rightarrow> 'w \<Rightarrow> Outcome \<times> StateBase \<times> 'w) \<Rightarrow> (StateName \<Rightarrow> Outcome \<Rightarrow> 'w \<Rightarrow> 'w)
     \<Rightarrow> StateName \<Rightarrow> StateName list \<Rightarrow> CalculateTwoFibonacciSeriesSequentially \<Rightarrow> 'w
     \<Rightarrow> (Outcome \<times> StateName list \<times> CalculateTwoFibonacciSeriesSequentially \<times> 'w) option" where
  "runStates 0 exec diag current trace c w = None"
| "runStates (Suc fuel) exec diag current trace c w =
     (case map_of (states c) current of
        None \<Rightarrow> Some (failure, trace, c, diag current failure w)
      | Some (st, ts) \<Rightarrow>
          (let (out, st', w') = exec st w;
               c' = setChild current st' c;
               trace' = trace @ [current]
           in case map_of ts out of
                None \<Rightarrow> Some (failure, trace', c', diag current out w')
              | Some (ToOutcome t) \<Rightarrow> Some (t, trace', c', w')
              | Some (ToState n) \<Rightarrow> runStates fuel exec diag n trace' c' w'))"

text \<open>
  With restart on execution every call begins at the default initial child; without it
  the call resumes at the child that was active at the end of the previous call.
\<close>

definition initialState :: "CalculateTwoFibonacciSeriesSequentially \<Rightarrow> StateName option" where
  "initialState c =
     (if restartOnExecution c then defaultInitialState c
      else (case activeState c of None \<Rightarrow> defaultInitialState c | Some n \<Rightarrow> Some n))"

definition execute_seq ::
  "nat \<Rightarrow> (StateBase \<Rightarrow> 'w \<Rightarrow> Outcome \<times> StateBase \<times> 'w) \<Rightarrow> (StateName \<Rightarrow> Outcome \<Rightarrow> 'w \<Rightarrow> 'w)
     \<Rightarrow> CalculateTwoFibonacciSeriesSequentially \<Rightarrow> 'w
     \<Rightarrow> (Outcome \<times> StateName list \<times> CalculateTwoFibonacciSeriesSequentially \<times> 'w) option" where
  "execute_seq fuel exec diag c w =
     (case initialState c of
        None \<Rightarrow> Some (failure, [], c, w)
      | Some start \<Rightarrow> runStates fuel exec diag start [] c w)"

definition transitionTable ::
  "CalculateTwoFibonacciSeriesSequentially \<Rightarrow> (StateName \<times> Transitions) list" where
  "transitionTable c = map (\<lambda>(n, st, ts). (n, ts)) (states c)"

text \<open>
  The children of this package: the virtual call reaches \<^verbatim>\<open>execute\<close> of the leaf. A fault
  of the leaf is captured as the outcome failure. A child of another concrete type has no
  code among the sources; it is given the outcome failure.
\<close>

fun executeChild :: "StateBase \<Rightarrow> World \<Rightarrow> Outcome \<times> StateBase \<times> World" where
  "executeChild (FibonacciState s) w =
     (case execute s w of
        Inl e \<Rightarrow> (failure, FibonacciState s, w)
      | Inr (out, s', w') \<Rightarrow> (out, FibonacciState s', w'))"
| "executeChild (OtherState n t) w = (failure, OtherState n t, w)"

definition reportMissingTransition :: "StateName \<Rightarrow> Outcome \<Rightarrow> World \<Rightarrow> World" where
  "reportMissingTransition n out w =
     addSimpleEntry ERROR (''No transition for the outcome of '' @ [apostrophe] @ n @ [apostrophe] @ ''.'') w"

section \<open>Locking of the feedback snapshot\<close>

text \<open>
  \<^verbatim>\<open>actionFeedbackMutex_\<close> is a \<^verbatim>\<open>std::shared_mutex\<close>: any number of threads hold its shared
  side at once, one thread holds its exclusive side and then no other thread holds either
  side. Each function that touches \<^verbatim>\<open>actionFeedback_\<close> is the sequence of its lock
  operations and accesses, in the order of the source:
  \<^item> \<^verbatim>\<open>runPreExecution\<close> takes a \<^verbatim>\<open>std::shared_lock\<close>, resets the pointer, and leaves the scope;
  \<^item> the feedback callback takes a \<^verbatim>\<open>std::unique_lock\<close>, assigns the pointer, and returns;
  \<^item> \<^verbatim>\<open>getProgressImpl\<close> takes a \<^verbatim>\<open>std::shared_lock\<close>; when the order is set it tests the
    pointer against null (\<open>Load\<close>) and, when the test saw a pointer that is not null,
    dereferences it for the size of the sequence (\<open>Deref\<close>); then it returns.
\<close>

datatype LockMode = SharedLock | UniqueLock

datatype Access = Acquire LockMode | Store "Feedback option" | Load | Deref | Release

definition runPreExecution_accesses :: "Access list" where
  "runPreExecution_accesses = [Acquire SharedLock, Store None, Release]"

definition feedbackCb_accesses :: "Feedback \<Rightarrow> Access list" where
  "feedbackCb_accesses feedback = [Acquire UniqueLock, Store (Some feedback), Release]"

definition getProgressImpl_accesses :: "cint option \<Rightarrow> Access list" where
  "getProgressImpl_accesses order =
     (case order of
        None \<Rightarrow> [Acquire SharedLock, Release]
      | Some v \<Rightarrow> [Acquire SharedLock, Load, Deref, Release])"

record Thread =
  program :: "Access list"
  observed :: "Feedback option list"

record Shared =
  cell :: "Feedback option"
  sharedHolders :: "nat list"
  uniqueHolder :: "nat option"
  threads :: "Thread list"

text \<open>
  One step of thread \<open>i\<close>: its next operation, when the mutex lets it through. \<open>None\<close> is
  a thread that is blocked or has nothing left to do. A thread records every value of the
  pointer that it reads.
\<close>

definition stepThread :: "nat \<Rightarrow> Shared \<Rightarrow> Shared option" where
  "stepThread i sh =
     (if i < length (threads sh) then
        (let t = threads sh ! i
         in case program t of
              [] \<Rightarrow> None
            | a # rest \<Rightarrow>
                (let t' = t\<lparr>program := rest\<rparr>
                 in case a of
                      Acquire SharedLock \<Rightarrow>
                        (if uniqueHolder sh = None
                         then Some (sh\<lparr>sharedHolders := i # sharedHolders sh,
                                       threads := (threads sh)[i := t']\<rparr>)
                         else None)
                    | Acquire UniqueLock \<Rightarrow>
                        (if uniqueHolder sh = None \<and> sharedHolders sh = []
                         then Some (sh\<lparr>uniqueHolder := Some i, threads := (threads sh)[i := t']\<rparr>)
                         else None)
                    | Store v \<Rightarrow> Some (sh\<lparr>cell := v, threads := (threads sh)[i := t']\<rparr>)
                    | Load \<Rightarrow>
                        Some (sh\<lparr>threads := (threads sh)[i := t'\<lparr>observed := observed t' @ [cell sh]\<rparr>]\<rparr>)
                    | Deref \<Rightarrow>
                        (if observed t \<noteq> [] \<and> last (observed t) \<noteq> None
                         then Some (sh\<lparr>threads :=
                                        (threads sh)[i := t'\<lparr>observed := observed t' @ [cell sh]\<rparr>]\<rparr>)
                         else Some (sh\<lparr>threads := (threads sh)[i := t']\<rparr>))
                    | Release \<Rightarrow>
                        Some (sh\<lparr>sharedHolders := removeAll i (sharedHolders sh),
                                  uniqueHolder := (if uniqueHolder sh = Some i then None else uniqueHolder sh),
                                  threads := (threads sh)[i := t']\<rparr>)))
      else None)"

fun runSchedule :: "nat list \<Rightarrow> Shared \<Rightarrow> Shared option" where
  "runSchedule [] sh = Some sh"
| "runSchedule (i # is) sh =
     (case stepThread i sh of
        None \<Rightarrow> None
      | Some sh' \<Rightarrow> runSchedule is sh')"

definition startThreads :: "Feedback option \<Rightarrow> Access list list \<Rightarrow> Shared" where
  "startThreads v ps =
     \<lparr>cell = v, sharedHolders = [], uniqueHolder = None,
      threads = map (\<lambda>p. \<lparr>program = p, observed = []\<rparr>) ps\<rparr>"

section \<open>Concrete inputs\<close>

text \<open>
  A world with an empty parameter server, an action server that lets every goal succeed
  with an empty sequence, no report entries and nothing logged.
\<close>

definition world0 :: World where
  "world0 = \<lparr>rosParameters = Map.empty,
             actionServer = (\<lambda>k g. \<lparr>replyFeedback = [], replyOutcome = Succeeded,
                                      replyResult = \<lparr>resultSequence = []\<rparr>\<rparr>),
             reportEntries = [], ioLog = []\<rparr>"

text \<open>The same world with an action server that faults every goal, and one that cancels it.\<close>

definition faultyWorld :: World where
  "faultyWorld = world0\<lparr>actionServer :=
     (\<lambda>k g. \<lparr>replyFeedback = [], replyOutcome = Faulted, replyResult = \<lparr>resultSequence = []\<rparr>\<rparr>)\<rparr>"

definition cancellingWorld :: World where
  "cancellingWorld = world0\<lparr>actionServer :=
     (\<lambda>k g. \<lparr>replyFeedback = [], replyOutcome = Cancelled, replyResult = \<lparr>resultSequence = []\<rparr>\<rparr>)\<rparr>"

text \<open>The transitions that \<open>constructImpl_seq\<close> gives the first and the second child.\<close>

definition table1 :: Transitions where
  "table1 = [(success, ToState name2), (preemption, ToOutcome preemption), (failure, ToOutcome failure)]"

definition table2 :: Transitions where
  "table2 = [(success, ToOutcome success), (preemption, ToOutcome preemption), (failure, ToOutcome failure)]"

text \<open>A world whose parameter server holds another topic for the action.\<close>

definition remappedWorld :: World where
  "remappedWorld = world0\<lparr>rosParameters :=
     [''/state_machine_example/calculate_fibonacci_series/action'' \<mapsto> ''/other_fibonacci'']\<rparr>"

text \<open>
  A composite whose two children are states of another concrete type, and two feedback
  messages.
\<close>

definition mistypedSequence :: CalculateTwoFibonacciSeriesSequentially where
  "mistypedSequence =
     addState (OtherState name2 ''state_machine_example::Other'') table2
       (addState (OtherState name1 ''state_machine_example::Other'') table1 defaultSequence)"

definition feedback0 :: Feedback where
  "feedback0 = \<lparr>feedbackSequence = [0, 1, 1]\<rparr>"

definition feedback1 :: Feedback where
  "feedback1 = \<lparr>feedbackSequence = [0, 1, 1, 2]\<rparr>"

section \<open>What the factory builds\<close>


lemma createFibonacciState_Some:
  "createFibonacciState n w =
     (Some (defaultFibonacci\<lparr>stateName := n, stateType := fibonacciType, nestedName := n,
              outcomes := [success, preemption, failure], nominalOutcome := Some success,
              m_action := (case rosParameters w ''/state_machine_example/calculate_fibonacci_series/action'' of
                             None \<Rightarrow> ''/fibonacci'' | Some a \<Rightarrow> a)\<rparr>),
      w\<lparr>ioLog := ioLog w @ [ParamRead ''/state_machine_example/calculate_fibonacci_series/action'']\<rparr>)"
  by (simp add: createFibonacciState_def constructImpl_def setOutcomes_def setNominalOutcome_def
      getParam_def defaultFibonacci_def split: option.splits)

lemma name1_neq_name2: "name1 \<noteq> name2"
  by (simp add: name1_def name2_def)

lemma createSequenceState_states:
  assumes "createSequenceState n w = (r, w')"
  shows "\<exists>c s1 s2. r = Some c \<and> smName c = n \<and> smType c = sequenceType
           \<and> restartOnExecution c \<and> defaultInitialState c = Some name1
           \<and> m_order s1 = None \<and> m_order s2 = None
           \<and> states c =
               [(name1, FibonacciState s1,
                   [(success, ToState name2), (preemption, ToOutcome preemption), (failure, ToOutcome failure)]),
                (name2, FibonacciState s2,
                   [(success, ToOutcome success), (preemption, ToOutcome preemption), (failure, ToOutcome failure)])]"
  using assms
  by (auto simp add: createSequenceState_def constructImpl_seq_def createFibonacciState_Some Let_def
      addState_def setDefaultInitialState_def setRestartOnExecution_def setOutcomes_seq_def
      defaultSequence_def defaultFibonacci_def)

lemma leaf_roundtrip:
  "loadSettings (saveSettings (setOrder v s1)) s2 = Inr (True, s2\<lparr>m_order := Some v\<rparr>)"
  by (simp add: loadSettings_def saveSettings_def loadSettingsImpl_def saveSettingsImpl_def
      setOrder_def addParameter_def parameterIsRegistered_def getParameter_def)


lemma setOrder_seq_two_children:
  assumes "states c = [(name1, FibonacciState s1, t1), (name2, FibonacciState s2, t2)]"
  shows "setOrder_seq v c =
           Inr (c\<lparr>states := [(name1, FibonacciState (setOrder v s1), t1),
                              (name2, FibonacciState (setOrder v s2), t2)]\<rparr>)"
  using assms name1_neq_name2
  by (simp add: setOrder_seq_def getState_def updateState_def)

lemma getOrder_seq_first_child:
  assumes "states c = (name1, FibonacciState s1, t1) # rest"
  shows "getOrder_seq c = Inr (m_order s1)"
  using assms by (simp add: getOrder_seq_def getState_def getOrder_def)

lemma saveSettings_seq_Some:
  assumes "states c = (name1, FibonacciState s1, t1) # rest" and "m_order s1 = Some v"
  shows "saveSettings_seq c = Inr [\<lparr>paramName = ''order'', paramKind = ''int'', paramValue = IntValue v\<rparr>]"
  using assms
  by (simp add: saveSettings_seq_def saveSettingsImpl_seq_def getOrder_seq_first_child addParameter_def)

lemma loadSettings_seq_order:
  assumes "states c = [(name1, FibonacciState s1, t1), (name2, FibonacciState s2, t2)]"
  shows "loadSettings_seq [\<lparr>paramName = ''order'', paramKind = ''int'', paramValue = IntValue v\<rparr>] c =
           Inr (True, c\<lparr>states := [(name1, FibonacciState (setOrder v s1), t1),
                                    (name2, FibonacciState (setOrder v s2), t2)]\<rparr>)"
  using setOrder_seq_two_children [OF assms, of v]
  by (simp add: loadSettings_seq_def loadSettingsImpl_seq_def parameterIsRegistered_def getParameter_def)

text \<open>
  Claim C1. Settings round trip: after \<open>setOrder v\<close> on one instance, a second instance of
  the same type that loads what the first one saves has the order \<open>v\<close>. For the leaf this
  holds of any two instances; for the composite it holds of any two instances built by
  the factory, and every step of the way returns without a fault.
\<close>

theorem settings_round_trip:
  assumes "createSequenceState n1 w1 = (Some c1, w1')"
      and "createSequenceState n2 w2 = (Some c2, w2')"
  shows "(\<exists>s2'. loadSettings (saveSettings (setOrder v s1)) s2 = Inr (True, s2') \<and> getOrder s2' = Some v)
       \<and> (\<exists>c1' settings c2'.
             setOrder_seq v c1 = Inr c1' \<and> saveSettings_seq c1' = Inr settings
           \<and> loadSettings_seq settings c2 = Inr (True, c2') \<and> getOrder_seq c2' = Inr (Some v))"
proof
  show "\<exists>s2'. loadSettings (saveSettings (setOrder v s1)) s2 = Inr (True, s2') \<and> getOrder s2' = Some v"
    by (simp add: leaf_roundtrip getOrder_def)
next
  from createSequenceState_states [OF assms(1)] obtain a1 a2 ta1 ta2 where
    st1: "states c1 = [(name1, FibonacciState a1, ta1), (name2, FibonacciState a2, ta2)]"
    by auto
  from createSequenceState_states [OF assms(2)] obtain b1 b2 tb1 tb2 where
    st2: "states c2 = [(name1, FibonacciState b1, tb1), (name2, FibonacciState b2, tb2)]"
    by auto
  let ?c1' = "c1\<lparr>states := [(name1, FibonacciState (setOrder v a1), ta1),
                              (name2, FibonacciState (setOrder v a2), ta2)]\<rparr>"
  let ?c2' = "c2\<lparr>states := [(name1, FibonacciState (setOrder v b1), tb1),
                              (name2, FibonacciState (setOrder v b2), tb2)]\<rparr>"
  have 1: "setOrder_seq v c1 = Inr ?c1'"
    by (rule setOrder_seq_two_children [OF st1])
  have 2: "saveSettings_seq ?c1' =
             Inr [\<lparr>paramName = ''order'', paramKind = ''int'', paramValue = IntValue v\<rparr>]"
    by (rule saveSettings_seq_Some [where ?s1.0 = "setOrder v a1"]) (simp_all add: setOrder_def)
  have 3: "loadSettings_seq [\<lparr>paramName = ''order'', paramKind = ''int'', paramValue = IntValue v\<rparr>] c2
             = Inr (True, ?c2')"
    by (rule loadSettings_seq_order [OF st2])
  have 4: "getOrder_seq ?c2' = Inr (Some v)"
    using getOrder_seq_first_child [of ?c2' "setOrder v b1"] by (simp add: setOrder_def)
  from 1 2 3 4 show "\<exists>c1' settings c2'.
             setOrder_seq v c1 = Inr c1' \<and> saveSettings_seq c1' = Inr settings
           \<and> loadSettings_seq settings c2 = Inr (True, c2') \<and> getOrder_seq c2' = Inr (Some v)"
    by blast
qed

theorem settings_round_trip_witness:
  "\<exists>c1 w1' c2 w2'.
      createSequenceState ''A'' world0 = (Some c1, w1')
    \<and> createSequenceState ''B'' world0 = (Some c2, w2')
    \<and> (\<exists>s2'. loadSettings (saveSettings (setOrder 5 defaultFibonacci)) defaultFibonacci = Inr (True, s2')
             \<and> getOrder s2' = Some 5)
    \<and> (\<exists>c1' settings c2'.
             setOrder_seq 5 c1 = Inr c1' \<and> saveSettings_seq c1' = Inr settings
           \<and> loadSettings_seq settings c2 = Inr (True, c2') \<and> getOrder_seq c2' = Inr (Some 5))"
proof -
  obtain c1 w1' where a: "createSequenceState ''A'' world0 = (Some c1, w1')"
    using createSequenceState_states [of "''A''" world0] by (metis surj_pair)
  obtain c2 w2' where b: "createSequenceState ''B'' world0 = (Some c2, w2')"
    using createSequenceState_states [of "''B''" world0] by (metis surj_pair)
  from settings_round_trip [OF a b, of 5 defaultFibonacci defaultFibonacci] a b
  show ?thesis by blast
qed




section \<open>Validation of the leaf\<close>

text \<open>
  Claim C7. A leaf whose order has not been set, neither by \<open>setOrder\<close> nor by loading
  settings, reports exactly one inconsistency, and its message names the order that is
  missing; once the order is set, by \<open>setOrder\<close> or by loading settings that hold it, the
  list of inconsistencies is empty.
\<close>

theorem unconfigured_leaf_inconsistent:
  assumes "m_order s = None"
  shows "getInconsistencies s =
           [''The order of '' @ [apostrophe] @ nestedName s @ [apostrophe] @ '' has not been set.'']
       \<and> getInconsistencies s \<noteq> []
       \<and> getInconsistencies (setOrder v s) = []
       \<and> (\<exists>s'. loadSettings [\<lparr>paramName = ''order'', paramKind = ''int'', paramValue = IntValue v\<rparr>] s
                   = Inr (True, s')
              \<and> getInconsistencies s' = [])"
  using assms
  by (simp add: getInconsistencies_def getInconsistenciesImpl_def setOrder_def loadSettings_def
      loadSettingsImpl_def parameterIsRegistered_def getParameter_def)

theorem unconfigured_leaf_inconsistent_witness:
  "\<exists>s w'. createFibonacciState ''MyState'' world0 = (Some s, w')
     \<and> m_order s = None
     \<and> getInconsistencies s = [''The order of '' @ [apostrophe] @ ''MyState'' @ [apostrophe] @ '' has not been set.'']
     \<and> getInconsistencies (setOrder 5 s) = []"
proof -
  let ?s = "defaultFibonacci\<lparr>stateName := ''MyState'', stateType := fibonacciType, nestedName := ''MyState'',
              outcomes := [success, preemption, failure], nominalOutcome := Some success,
              m_action := (case rosParameters world0 ''/state_machine_example/calculate_fibonacci_series/action'' of
                             None \<Rightarrow> ''/fibonacci'' | Some a \<Rightarrow> a)\<rparr>"
  have n: "m_order ?s = None" by (simp add: defaultFibonacci_def)
  from unconfigured_leaf_inconsistent [OF n, of 5] n show ?thesis
    by (simp add: createFibonacciState_Some)
qed

text \<open>
  Claim C10. Saving a leaf whose order is not set still emits the parameter \<open>order\<close>, with
  the value 0. Loading these settings into any leaf, a fresh one included, sets its order
  to 0: \<open>getOrder\<close> is 0 rather than empty and the list of inconsistencies is empty.
\<close>

theorem save_unset_order_emits_zero:
  assumes "m_order s = None"
  shows "saveSettings s = [\<lparr>paramName = ''order'', paramKind = ''int'', paramValue = IntValue 0\<rparr>]
       \<and> (\<exists>t'. loadSettings (saveSettings s) t = Inr (True, t')
              \<and> getOrder t' = Some 0 \<and> getInconsistencies t' = [])"
  using assms
  by (simp add: saveSettings_def saveSettingsImpl_def addParameter_def loadSettings_def
      loadSettingsImpl_def parameterIsRegistered_def getParameter_def getOrder_def
      getInconsistencies_def getInconsistenciesImpl_def)

theorem save_unset_order_emits_zero_witness:
  "m_order defaultFibonacci = None
   \<and> getInconsistencies defaultFibonacci \<noteq> []
   \<and> saveSettings defaultFibonacci = [\<lparr>paramName = ''order'', paramKind = ''int'', paramValue = IntValue 0\<rparr>]
   \<and> (\<exists>t'. loadSettings (saveSettings defaultFibonacci) defaultFibonacci = Inr (True, t')
              \<and> getOrder t' = Some 0 \<and> getInconsistencies t' = [])"
proof -
  have n: "m_order defaultFibonacci = None" by (simp add: defaultFibonacci_def)
  have i: "getInconsistencies defaultFibonacci \<noteq> []"
    by (simp add: getInconsistencies_def getInconsistenciesImpl_def defaultFibonacci_def)
  from save_unset_order_emits_zero [OF n, of defaultFibonacci] n i show ?thesis
    by blast
qed

section \<open>The factory contract\<close>

text \<open>
  Claim C6. For every registered type, \<open>createState\<close> yields an instance whose type and name
  are the requested ones; for a type that is not registered it yields no instance.
\<close>

theorem factory_contract:
  "(t \<in> set (map fst registry) \<longrightarrow>
      (\<exists>inst. fst (createState t n w) = Some inst \<and> getType inst = t \<and> getName inst = n))
   \<and> (t \<notin> set (map fst registry) \<longrightarrow> fst (createState t n w) = None)"
proof (intro conjI impI)
  assume "t \<in> set (map fst registry)"
  then consider "t = fibonacciType" | "t = sequenceType"
    by (auto simp add: registry_def)
  then show "\<exists>inst. fst (createState t n w) = Some inst \<and> getType inst = t \<and> getName inst = n"
  proof cases
    case 1
    then show ?thesis
      by (simp add: createState_def registry_def createFibonacciState_Some)
  next
    case 2
    obtain r w' where cr: "createSequenceState n w = (r, w')" by (cases "createSequenceState n w")
    from createSequenceState_states [OF cr] obtain c where
      "r = Some c" "smName c = n" "smType c = sequenceType" by blast
    moreover have "fibonacciType \<noteq> sequenceType"
      by (simp add: fibonacciType_def sequenceType_def)
    ultimately show ?thesis using 2 cr
      by (simp add: createState_def registry_def)
  qed
next
  assume "t \<notin> set (map fst registry)"
  then have "map_of registry t = None"
    by (simp add: map_of_eq_None_iff)
  then show "fst (createState t n w) = None"
    by (simp add: createState_def)
qed

theorem factory_contract_witness:
  "fibonacciType \<in> set (map fst registry)
   \<and> (\<exists>inst. fst (createState fibonacciType ''MyState'' world0) = Some inst
         \<and> getType inst = fibonacciType \<and> getName inst = ''MyState'')
   \<and> sequenceType \<in> set (map fst registry)
   \<and> (\<exists>inst. fst (createState sequenceType ''MyState'' world0) = Some inst
         \<and> getType inst = sequenceType \<and> getName inst = ''MyState'')
   \<and> ''state_machine_example::Unknown'' \<notin> set (map fst registry)
   \<and> fst (createState ''state_machine_example::Unknown'' ''MyState'' world0) = None"
proof -
  have a: "fibonacciType \<in> set (map fst registry)" by (simp add: registry_def)
  have b: "sequenceType \<in> set (map fst registry)" by (simp add: registry_def)
  have c: "''state_machine_example::Unknown'' \<notin> set (map fst registry)"
    by (simp add: registry_def fibonacciType_def sequenceType_def)
  from factory_contract [of fibonacciType "''MyState''" world0]
       factory_contract [of sequenceType "''MyState''" world0]
       factory_contract [of "''state_machine_example::Unknown''" "''MyState''" world0]
       a b c
  show ?thesis by blast
qed




section \<open>The execution of the leaf\<close>

lemma goalsSent_addSimpleEntry [simp]: "goalsSent (addSimpleEntry l m w) = goalsSent w"
  by (simp add: goalsSent_def addSimpleEntry_def addEntry_def)

lemma actionServer_addSimpleEntry [simp]: "actionServer (addSimpleEntry l m w) = actionServer w"
  by (simp add: addSimpleEntry_def addEntry_def)

text \<open>
  Claim C3. With the order set and the action client in place, as pre-execution leaves it,
  mid-execution sends exactly one goal, carrying the order, on the topic of the client,
  and returns the outcome that the terminal result of that goal decides: success for a
  succeeded goal, preemption for a cancelled one, failure for a faulted one and for a
  timeout. Besides the entry that reports the start, the report gains exactly one entry
  for the result: an info entry on success, a debug entry on preemption, an error entry
  on failure.
\<close>

theorem action_outcome_mapping:
  assumes "m_order s = Some v" and "m_actionClient s = Some c"
  shows "\<exists>s' w' e.
           runMidExecution s w =
             Inr (case replyOutcome (actionServer w (length (goalsSent w)) \<lparr>goalOrder = v\<rparr>) of
                    Succeeded \<Rightarrow> success
                  | Cancelled \<Rightarrow> preemption
                  | Faulted \<Rightarrow> failure
                  | TimedOut \<Rightarrow> failure,
                  s', w')
         \<and> goalsSent w' = goalsSent w @ [GoalSent (clientTopic c) \<lparr>goalOrder = v\<rparr>]
         \<and> reportEntries w' =
             reportEntries w
               @ [createEntry DEBUG (''Calculating Fibonacci series of order '' @ [apostrophe] @ to_string v
                                       @ [apostrophe] @ '' ...''),
                  e]
         \<and> entryLevel e =
             (case replyOutcome (actionServer w (length (goalsSent w)) \<lparr>goalOrder = v\<rparr>) of
                Succeeded \<Rightarrow> INFO
              | Cancelled \<Rightarrow> DEBUG
              | Faulted \<Rightarrow> ERROR
              | TimedOut \<Rightarrow> ERROR)"
proof (cases "replyOutcome (actionServer w (length (goalsSent w)) \<lparr>goalOrder = v\<rparr>)")
  case Succeeded
  with assms show ?thesis
    by (simp add: runMidExecution_def clientExecute_def Let_def actionGoalSucceeded_def
        actionGoalCancelled_def goalsSent_def addSimpleEntry_def addEntry_def createEntry_def)
next
  case Cancelled
  with assms show ?thesis
    by (simp add: runMidExecution_def clientExecute_def Let_def actionGoalSucceeded_def
        actionGoalCancelled_def goalsSent_def addSimpleEntry_def addEntry_def createEntry_def)
next
  case Faulted
  with assms show ?thesis
    by (simp add: runMidExecution_def clientExecute_def Let_def actionGoalSucceeded_def
        actionGoalCancelled_def goalsSent_def addSimpleEntry_def addEntry_def createEntry_def)
next
  case TimedOut
  with assms show ?thesis
    by (simp add: runMidExecution_def clientExecute_def Let_def actionGoalSucceeded_def
        actionGoalCancelled_def goalsSent_def addSimpleEntry_def addEntry_def createEntry_def)
qed


theorem action_outcome_mapping_witness:
  "m_order (fst (runPreExecution (setOrder 5 defaultFibonacci) cancellingWorld)) = Some 5
   \<and> m_actionClient (fst (runPreExecution (setOrder 5 defaultFibonacci) cancellingWorld))
        = Some \<lparr>clientTopic = ''/fibonacci'', clientResult = None\<rparr>
   \<and> (\<exists>s' w' e.
         runMidExecution (fst (runPreExecution (setOrder 5 defaultFibonacci) cancellingWorld))
           cancellingWorld = Inr (preemption, s', w')
       \<and> goalsSent w' = [GoalSent ''/fibonacci'' \<lparr>goalOrder = 5\<rparr>]
       \<and> reportEntries w' =
             [createEntry DEBUG (''Calculating Fibonacci series of order '' @ [apostrophe] @ to_string 5
                                       @ [apostrophe] @ '' ...''), e]
       \<and> entryLevel e = DEBUG)"
proof -
  let ?s = "fst (runPreExecution (setOrder 5 defaultFibonacci) cancellingWorld)"
  have a: "m_order ?s = Some 5"
    by (simp add: runPreExecution_def setOrder_def Let_def)
  have b: "m_actionClient ?s = Some \<lparr>clientTopic = ''/fibonacci'', clientResult = None\<rparr>"
    by (simp add: runPreExecution_def setOrder_def Let_def defaultFibonacci_def)
  from action_outcome_mapping [OF a b, of cancellingWorld] a b show ?thesis
    by (simp add: cancellingWorld_def world0_def goalsSent_def)
qed

section \<open>Sequential composition\<close>

lemma built_table:
  assumes "createSequenceState n w0 = (Some c0, w0')"
  shows "transitionTable c0 = [(name1, table1), (name2, table2)]
       \<and> defaultInitialState c0 = Some name1 \<and> restartOnExecution c0"
  using createSequenceState_states [OF assms]
  by (auto simp add: transitionTable_def table1_def table2_def)

lemma states_of_table:
  assumes "transitionTable c = [(name1, t1), (name2, t2)]"
  shows "\<exists>a b. states c = [(name1, a, t1), (name2, b, t2)]"
  using assms
  by (auto simp add: transitionTable_def map_eq_Cons_conv)

lemma runStates_sequence_success:
  assumes st: "states c = [(name1, a, table1), (name2, b, table2)]"
    and e1: "exec a w = (success, a', w1)"
    and e2: "exec b w1 = (success, b', w2)"
  shows "runStates (Suc (Suc k)) exec diag name1 [] c w =
           Some (success, [name1, name2], setChild name2 b' (setChild name1 a' c), w2)"
  using st e1 e2 name1_neq_name2
  by (simp add: table1_def table2_def setChild_def)

lemma runStates_sequence_failure:
  assumes st: "states c = [(name1, a, table1), (name2, b, table2)]"
    and e1: "exec a w = (failure, a', w1)"
  shows "runStates (Suc k) exec diag name1 [] c w =
           Some (failure, [name1], setChild name1 a' c, w1)"
  using st e1
  by (simp add: table1_def)

text \<open>
  Claim C2. Take a composite with the transitions that \<open>constructImpl_seq\<close> builds and its
  first child as the default initial child, whatever the children do when executed. The
  transitions are: first child, success to the second child, preemption to preemption,
  failure to failure; second child, success to success, preemption to preemption, failure
  to failure. If the
  first child returns success and the second returns success, \<open>execute_seq\<close> returns success
  and has executed the first child and then the second, each once. If the first child
  returns failure, \<open>execute_seq\<close> returns failure and has executed the first child only. Two
  units of fuel are enough for the execution to return.
\<close>

theorem sequential_composition:
  assumes built: "createSequenceState n w0 = (Some c0, w0')"
    and table: "transitionTable c = transitionTable c0"
    and init: "defaultInitialState c = defaultInitialState c0"
    and restart: "restartOnExecution c = restartOnExecution c0"
    and child1: "getState name1 c = Some st1"
    and child2: "getState name2 c = Some st2"
    and fuel: "2 \<le> fuel"
  shows "transitionTable c =
           [(name1, [(success, ToState name2), (preemption, ToOutcome preemption), (failure, ToOutcome failure)]),
            (name2, [(success, ToOutcome success), (preemption, ToOutcome preemption), (failure, ToOutcome failure)])]
       \<and> initialState c = Some name1
       \<and> (\<forall>st1' w1 st2' w2.
            exec st1 w = (success, st1', w1) \<longrightarrow> exec st2 w1 = (success, st2', w2) \<longrightarrow>
            (\<exists>c'. execute_seq fuel exec diag c w = Some (success, [name1, name2], c', w2)))
       \<and> (\<forall>st1' w1.
            exec st1 w = (failure, st1', w1) \<longrightarrow>
            (\<exists>c'. execute_seq fuel exec diag c w = Some (failure, [name1], c', w1)))"
proof -
  from built_table [OF built] table init restart
  have t: "transitionTable c = [(name1, table1), (name2, table2)]"
    and i: "initialState c = Some name1"
    by (simp_all add: initialState_def)
  from states_of_table [OF t] obtain a b where
    st: "states c = [(name1, a, table1), (name2, b, table2)]" by blast
  from st child1 child2 name1_neq_name2 have ab: "a = st1" "b = st2"
    by (simp_all add: getState_def)
  from fuel obtain k where k: "fuel = Suc (Suc k)"
    by (metis Suc_le_D numeral_2_eq_2 Suc_le_mono)
  show ?thesis
  proof (intro conjI allI impI)
    show "transitionTable c =
           [(name1, [(success, ToState name2), (preemption, ToOutcome preemption), (failure, ToOutcome failure)]),
            (name2, [(success, ToOutcome success), (preemption, ToOutcome preemption), (failure, ToOutcome failure)])]"
      using t by (simp add: table1_def table2_def)
  next
    show "initialState c = Some name1" by (rule i)
  next
    fix st1' w1 st2' w2
    assume "exec st1 w = (success, st1', w1)" and "exec st2 w1 = (success, st2', w2)"
    with runStates_sequence_success [OF st, of exec w st1' w1 st2' w2 k diag] ab i k
    show "\<exists>c'. execute_seq fuel exec diag c w = Some (success, [name1, name2], c', w2)"
      by (simp add: execute_seq_def)
  next
    fix st1' w1
    assume "exec st1 w = (failure, st1', w1)"
    with runStates_sequence_failure [OF st, of exec w st1' w1 "Suc k" diag] ab i k
    show "\<exists>c'. execute_seq fuel exec diag c w = Some (failure, [name1], c', w1)"
      by (simp add: execute_seq_def)
  qed
qed


lemma runMidExecution_result:
  assumes "m_order s = Some v" and "m_actionClient s = Some c"
  shows "\<exists>s' w'. runMidExecution s w =
            Inr ((case replyOutcome (actionServer w (length (goalsSent w)) \<lparr>goalOrder = v\<rparr>) of
                   Succeeded \<Rightarrow> success | Cancelled \<Rightarrow> preemption
                 | Faulted \<Rightarrow> failure | TimedOut \<Rightarrow> failure), s', w')
          \<and> goalsSent w' = goalsSent w @ [GoalSent (clientTopic c) \<lparr>goalOrder = v\<rparr>]
          \<and> actionServer w' = actionServer w
          \<and> m_order s' = Some v \<and> m_action s' = m_action s \<and> m_actionClient s' \<noteq> None"
proof -
  have fb: "\<And>fbs t. m_order (foldl (\<lambda>t fb. feedbackCb fb t) t fbs) = m_order t
              \<and> m_action (foldl (\<lambda>t fb. feedbackCb fb t) t fbs) = m_action t"
    subgoal for fbs t by (induction fbs arbitrary: t) (simp_all add: feedbackCb_def)
    done
  show ?thesis
    using assms
    by (cases "replyOutcome (actionServer w (length (goalsSent w)) \<lparr>goalOrder = v\<rparr>)")
       (simp_all add: runMidExecution_def clientExecute_def Let_def actionGoalSucceeded_def
          actionGoalCancelled_def goalsSent_def addSimpleEntry_def addEntry_def createEntry_def fb)
qed

lemma execute_result:
  assumes "m_order s = Some v"
  shows "\<exists>s' w'. execute s w =
            Inr ((case replyOutcome (actionServer w (length (goalsSent w)) \<lparr>goalOrder = v\<rparr>) of
                   Succeeded \<Rightarrow> success | Cancelled \<Rightarrow> preemption
                 | Faulted \<Rightarrow> failure | TimedOut \<Rightarrow> failure), s', w')
          \<and> goalsSent w' = goalsSent w @ [GoalSent (m_action s) \<lparr>goalOrder = v\<rparr>]
          \<and> actionServer w' = actionServer w
          \<and> m_order s' = Some v \<and> m_action s' = m_action s \<and> m_actionClient s' = None"
proof -
  let ?s1 = "fst (runPreExecution s w)" and ?w1 = "snd (runPreExecution s w)"
  have p: "m_order ?s1 = Some v"
       "m_actionClient ?s1 = Some \<lparr>clientTopic = m_action s, clientResult = None\<rparr>"
       "goalsSent ?w1 = goalsSent w" "actionServer ?w1 = actionServer w" "m_action ?s1 = m_action s"
    using assms by (simp_all add: runPreExecution_def Let_def goalsSent_def)
  from runMidExecution_result [OF p(1) p(2), of ?w1] p(3,4,5)
  obtain s2 w2 where m:
    "runMidExecution ?s1 ?w1 =
       Inr ((case replyOutcome (actionServer w (length (goalsSent w)) \<lparr>goalOrder = v\<rparr>) of
                   Succeeded \<Rightarrow> success | Cancelled \<Rightarrow> preemption
                 | Faulted \<Rightarrow> failure | TimedOut \<Rightarrow> failure), s2, w2)"
    "goalsSent w2 = goalsSent w @ [GoalSent (m_action s) \<lparr>goalOrder = v\<rparr>]"
    "actionServer w2 = actionServer w" "m_order s2 = Some v" "m_action s2 = m_action s"
    "m_actionClient s2 \<noteq> None"
    by auto
  then show ?thesis
    by (auto simp add: execute_def runPostExecution_def goalsSent_def split: prod.splits option.splits)
qed

lemma executeChild_result:
  assumes "m_order s = Some v"
  shows "\<exists>s' w'. executeChild (FibonacciState s) w =
            ((case replyOutcome (actionServer w (length (goalsSent w)) \<lparr>goalOrder = v\<rparr>) of
                   Succeeded \<Rightarrow> success | Cancelled \<Rightarrow> preemption
                 | Faulted \<Rightarrow> failure | TimedOut \<Rightarrow> failure),
             FibonacciState s', w')
          \<and> goalsSent w' = goalsSent w @ [GoalSent (m_action s) \<lparr>goalOrder = v\<rparr>]
          \<and> actionServer w' = actionServer w"
  using execute_result [OF assms, of w] by auto


lemma built_and_configured:
  "\<exists>c0 w0' c a b.
      createSequenceState n w = (Some c0, w0') \<and> setOrder_seq v c0 = Inr c
    \<and> transitionTable c = transitionTable c0
    \<and> defaultInitialState c = defaultInitialState c0
    \<and> restartOnExecution c = restartOnExecution c0
    \<and> getState name1 c = Some (FibonacciState a) \<and> m_order a = Some v
    \<and> getState name2 c = Some (FibonacciState b) \<and> m_order b = Some v"
proof -
  obtain r w0' where cr: "createSequenceState n w = (r, w0')" by (cases "createSequenceState n w")
  from createSequenceState_states [OF cr] obtain c0 s1 s2 t1 t2 where
    r: "r = Some c0" and st: "states c0 = [(name1, FibonacciState s1, t1), (name2, FibonacciState s2, t2)]"
    by blast
  let ?c = "c0\<lparr>states := [(name1, FibonacciState (setOrder v s1), t1),
                            (name2, FibonacciState (setOrder v s2), t2)]\<rparr>"
  have "setOrder_seq v c0 = Inr ?c" by (rule setOrder_seq_two_children [OF st])
  moreover have "transitionTable ?c = transitionTable c0"
    using st by (simp add: transitionTable_def)
  moreover have "getState name1 ?c = Some (FibonacciState (setOrder v s1))"
    "getState name2 ?c = Some (FibonacciState (setOrder v s2))"
    using name1_neq_name2 by (simp_all add: getState_def)
  moreover have "m_order (setOrder v s1) = Some v" "m_order (setOrder v s2) = Some v"
    by (simp_all add: setOrder_def)
  ultimately show ?thesis using cr r by auto
qed

theorem sequential_composition_witness:
  "(\<exists>c0 w0' c c' w2.
       createSequenceState ''Sequence'' world0 = (Some c0, w0') \<and> setOrder_seq 5 c0 = Inr c
     \<and> execute_seq 2 executeChild reportMissingTransition c world0
          = Some (success, [name1, name2], c', w2)
     \<and> length (goalsSent w2) = 2)
 \<and> (\<exists>c0 w0' c c' w1.
       createSequenceState ''Sequence'' faultyWorld = (Some c0, w0') \<and> setOrder_seq 5 c0 = Inr c
     \<and> execute_seq 2 executeChild reportMissingTransition c faultyWorld
          = Some (failure, [name1], c', w1)
     \<and> length (goalsSent w1) = 1)"
proof
  from built_and_configured [of "''Sequence''" world0 5] obtain c0 w0' c a b where
    h: "createSequenceState ''Sequence'' world0 = (Some c0, w0')" "setOrder_seq 5 c0 = Inr c"
       "transitionTable c = transitionTable c0" "defaultInitialState c = defaultInitialState c0"
       "restartOnExecution c = restartOnExecution c0"
       "getState name1 c = Some (FibonacciState a)" "m_order a = Some 5"
       "getState name2 c = Some (FibonacciState b)" "m_order b = Some 5"
    by blast
  from executeChild_result [OF h(7), of world0] obtain a' w1 where
    e1: "executeChild (FibonacciState a) world0 = (success, FibonacciState a', w1)"
      and g1: "goalsSent w1 = goalsSent world0 @ [GoalSent (m_action a) \<lparr>goalOrder = 5\<rparr>]"
      and s1: "actionServer w1 = actionServer world0"
    by (auto simp add: world0_def)
  from executeChild_result [OF h(9), of w1] s1 obtain b' w2 where
    e2: "executeChild (FibonacciState b) w1 = (success, FibonacciState b', w2)"
      and g2: "goalsSent w2 = goalsSent w1 @ [GoalSent (m_action b) \<lparr>goalOrder = 5\<rparr>]"
    by (auto simp add: world0_def)
  from sequential_composition [OF h(1) h(3) h(4) h(5) h(6) h(8), of 2 executeChild world0
      reportMissingTransition] e1 e2
  obtain c' where
    "execute_seq 2 executeChild reportMissingTransition c world0 = Some (success, [name1, name2], c', w2)"
    by auto
  moreover have "length (goalsSent w2) = 2"
    using g1 g2 by (simp add: goalsSent_def world0_def)
  ultimately show "\<exists>c0 w0' c c' w2.
       createSequenceState ''Sequence'' world0 = (Some c0, w0') \<and> setOrder_seq 5 c0 = Inr c
     \<and> execute_seq 2 executeChild reportMissingTransition c world0
          = Some (success, [name1, name2], c', w2)
     \<and> length (goalsSent w2) = 2"
    using h(1,2) by blast
next
  from built_and_configured [of "''Sequence''" faultyWorld 5] obtain c0 w0' c a b where
    h: "createSequenceState ''Sequence'' faultyWorld = (Some c0, w0')" "setOrder_seq 5 c0 = Inr c"
       "transitionTable c = transitionTable c0" "defaultInitialState c = defaultInitialState c0"
       "restartOnExecution c = restartOnExecution c0"
       "getState name1 c = Some (FibonacciState a)" "m_order a = Some 5"
       "getState name2 c = Some (FibonacciState b)" "m_order b = Some 5"
    by blast
  from executeChild_result [OF h(7), of faultyWorld] obtain a' w1 where
    e1: "executeChild (FibonacciState a) faultyWorld = (failure, FibonacciState a', w1)"
      and g1: "goalsSent w1 = goalsSent faultyWorld @ [GoalSent (m_action a) \<lparr>goalOrder = 5\<rparr>]"
    by (auto simp add: faultyWorld_def)
  from sequential_composition [OF h(1) h(3) h(4) h(5) h(6) h(8), of 2 executeChild faultyWorld
      reportMissingTransition] e1
  obtain c' where
    "execute_seq 2 executeChild reportMissingTransition c faultyWorld = Some (failure, [name1], c', w1)"
    by auto
  moreover have "length (goalsSent w1) = 1"
    using g1 by (simp add: goalsSent_def faultyWorld_def world0_def)
  ultimately show "\<exists>c0 w0' c c' w1.
       createSequenceState ''Sequence'' faultyWorld = (Some c0, w0') \<and> setOrder_seq 5 c0 = Inr c
     \<and> execute_seq 2 executeChild reportMissingTransition c faultyWorld
          = Some (failure, [name1], c', w1)
     \<and> length (goalsSent w1) = 1"
    using h(1,2) by blast
qed




section \<open>Construction\<close>

text \<open>
  Claim C8, as stated, fails: construction through the factory reads the ROS parameter
  server. Built in a world that has logged nothing, the leaf leaves a parameter read in
  the log, and the action topic of the built leaf follows what the parameter server holds.
\<close>

theorem construction_reads_parameter_server:
  "ioLog world0 = []
   \<and> ioLog (snd (createState fibonacciType ''MyState'' world0))
        = [ParamRead ''/state_machine_example/calculate_fibonacci_series/action'']
   \<and> map_option m_action (fst (createFibonacciState ''MyState'' world0)) = Some ''/fibonacci''
   \<and> map_option m_action (fst (createFibonacciState ''MyState'' remappedWorld)) = Some ''/other_fibonacci''"
  by (simp add: createState_def registry_def createFibonacciState_Some world0_def remappedWorld_def
      defaultFibonacci_def)

text \<open>
  Claim C8, amended. Construction sets up no ROS interface: \<open>constructImpl\<close> of the leaf
  returns true, creates no action client and leaves the order and the feedback as they
  were; the one access that leaves the process is the read of the action parameter, and
  the value read becomes the action topic (the topic stays as it was when the parameter
  server does not hold the parameter). The factory builds the leaf with one such read
  and the composite with two, one per child; the built leaf and both children of the
  built composite have the topic that was read and no action client, and each of them
  can be validated without being executed: it reports the order that is not set.
\<close>

theorem construction_opens_no_connection:
  "(\<exists>s'. constructImpl s w =
            (True, s', w\<lparr>ioLog := ioLog w @ [ParamRead ''/state_machine_example/calculate_fibonacci_series/action'']\<rparr>)
        \<and> m_action s' =
            (case rosParameters w ''/state_machine_example/calculate_fibonacci_series/action'' of
               None \<Rightarrow> m_action s | Some a \<Rightarrow> a)
        \<and> m_actionClient s' = m_actionClient s \<and> m_order s' = m_order s
        \<and> m_actionFeedback s' = m_actionFeedback s)
   \<and> (\<exists>t. createFibonacciState n w =
            (Some t, w\<lparr>ioLog := ioLog w @ [ParamRead ''/state_machine_example/calculate_fibonacci_series/action'']\<rparr>)
        \<and> m_action t =
            (case rosParameters w ''/state_machine_example/calculate_fibonacci_series/action'' of
               None \<Rightarrow> ''/fibonacci'' | Some a \<Rightarrow> a)
        \<and> m_actionClient t = None
        \<and> getInconsistencies t = [''The order of '' @ [apostrophe] @ n @ [apostrophe] @ '' has not been set.''])
   \<and> (\<exists>c a b. createSequenceState n w =
            (Some c, w\<lparr>ioLog := ioLog w @ [ParamRead ''/state_machine_example/calculate_fibonacci_series/action'',
                                             ParamRead ''/state_machine_example/calculate_fibonacci_series/action'']\<rparr>)
        \<and> getState name1 c = Some (FibonacciState a) \<and> getState name2 c = Some (FibonacciState b)
        \<and> m_action a =
            (case rosParameters w ''/state_machine_example/calculate_fibonacci_series/action'' of
               None \<Rightarrow> ''/fibonacci'' | Some v \<Rightarrow> v)
        \<and> m_action b = m_action a
        \<and> m_actionClient a = None \<and> m_actionClient b = None
        \<and> getInconsistencies a =
            [''The order of '' @ [apostrophe] @ name1 @ [apostrophe] @ '' has not been set.'']
        \<and> getInconsistencies b =
            [''The order of '' @ [apostrophe] @ name2 @ [apostrophe] @ '' has not been set.''])"
proof (intro conjI)
  show "\<exists>s'. constructImpl s w =
            (True, s', w\<lparr>ioLog := ioLog w @ [ParamRead ''/state_machine_example/calculate_fibonacci_series/action'']\<rparr>)
        \<and> m_action s' =
            (case rosParameters w ''/state_machine_example/calculate_fibonacci_series/action'' of
               None \<Rightarrow> m_action s | Some a \<Rightarrow> a)
        \<and> m_actionClient s' = m_actionClient s \<and> m_order s' = m_order s
        \<and> m_actionFeedback s' = m_actionFeedback s"
    by (simp add: constructImpl_def setOutcomes_def setNominalOutcome_def getParam_def Let_def
        split: option.splits)
next
  show "\<exists>t. createFibonacciState n w =
            (Some t, w\<lparr>ioLog := ioLog w @ [ParamRead ''/state_machine_example/calculate_fibonacci_series/action'']\<rparr>)
        \<and> m_action t =
            (case rosParameters w ''/state_machine_example/calculate_fibonacci_series/action'' of
               None \<Rightarrow> ''/fibonacci'' | Some a \<Rightarrow> a)
        \<and> m_actionClient t = None
        \<and> getInconsistencies t = [''The order of '' @ [apostrophe] @ n @ [apostrophe] @ '' has not been set.'']"
    by (simp add: createFibonacciState_Some defaultFibonacci_def getInconsistencies_def
        getInconsistenciesImpl_def)
next
  show "\<exists>c a b. createSequenceState n w =
            (Some c, w\<lparr>ioLog := ioLog w @ [ParamRead ''/state_machine_example/calculate_fibonacci_series/action'',
                                             ParamRead ''/state_machine_example/calculate_fibonacci_series/action'']\<rparr>)
        \<and> getState name1 c = Some (FibonacciState a) \<and> getState name2 c = Some (FibonacciState b)
        \<and> m_action a =
            (case rosParameters w ''/state_machine_example/calculate_fibonacci_series/action'' of
               None \<Rightarrow> ''/fibonacci'' | Some v \<Rightarrow> v)
        \<and> m_action b = m_action a
        \<and> m_actionClient a = None \<and> m_actionClient b = None
        \<and> getInconsistencies a =
            [''The order of '' @ [apostrophe] @ name1 @ [apostrophe] @ '' has not been set.'']
        \<and> getInconsistencies b =
            [''The order of '' @ [apostrophe] @ name2 @ [apostrophe] @ '' has not been set.'']"
    using name1_neq_name2
    by (simp add: createSequenceState_def constructImpl_seq_def createFibonacciState_Some Let_def
        addState_def setDefaultInitialState_def setRestartOnExecution_def setOutcomes_seq_def
        defaultSequence_def defaultFibonacci_def getState_def getInconsistencies_def
        getInconsistenciesImpl_def)
qed

theorem construction_opens_no_connection_witness:
  "\<exists>t c a b.
      createFibonacciState ''MyState'' remappedWorld =
        (Some t, remappedWorld\<lparr>ioLog := [ParamRead ''/state_machine_example/calculate_fibonacci_series/action'']\<rparr>)
    \<and> m_action t = ''/other_fibonacci''
    \<and> m_actionClient t = None
    \<and> getInconsistencies t = [''The order of '' @ [apostrophe] @ ''MyState'' @ [apostrophe] @ '' has not been set.'']
    \<and> createSequenceState ''MyState'' remappedWorld =
        (Some c, remappedWorld\<lparr>ioLog := [ParamRead ''/state_machine_example/calculate_fibonacci_series/action'',
                                     ParamRead ''/state_machine_example/calculate_fibonacci_series/action'']\<rparr>)
    \<and> getState name1 c = Some (FibonacciState a) \<and> getState name2 c = Some (FibonacciState b)
    \<and> m_action a = ''/other_fibonacci'' \<and> m_action b = ''/other_fibonacci''
    \<and> m_actionClient a = None \<and> m_actionClient b = None
    \<and> getInconsistencies a \<noteq> [] \<and> getInconsistencies b \<noteq> []"
proof -
  have "ioLog remappedWorld = []"
    "rosParameters remappedWorld ''/state_machine_example/calculate_fibonacci_series/action''
       = Some ''/other_fibonacci''"
    by (simp_all add: remappedWorld_def world0_def)
  with construction_opens_no_connection [of defaultFibonacci remappedWorld "''MyState''"]
  show ?thesis by auto
qed

section \<open>Access to the children of the composite\<close>

lemma getState_updateState_other:
  assumes "k \<noteq> n"
  shows "getState k (updateState n s c) = getState k c"
proof -
  have "map_of (map (\<lambda>(k, st, ts). if k = n then (k, FibonacciState s, ts) else (k, st, ts)) xs) k
          = map_of xs k" for xs :: "(StateName \<times> StateBase \<times> Transitions) list"
    using assms by (induction xs) auto
  then show ?thesis
    by (simp add: getState_def updateState_def)
qed

text \<open>
  Claim C9, as stated, fails: on a composite without children, and on one whose children
  are of another concrete type, \<open>setOrder_seq\<close> and \<open>getOrder_seq\<close> dereference the null result
  of the cast; no lookup or type-mismatch error is produced.
\<close>

theorem unchecked_downcast_counterexample:
  "setOrder_seq 5 defaultSequence = Inl NullPointerDereference
   \<and> getOrder_seq defaultSequence = Inl NullPointerDereference
   \<and> getState name1 mistypedSequence = Some (OtherState name1 ''state_machine_example::Other'')
   \<and> setOrder_seq 5 mistypedSequence = Inl NullPointerDereference
   \<and> getOrder_seq mistypedSequence = Inl NullPointerDereference"
  by (simp add: setOrder_seq_def getOrder_seq_def getState_def mistypedSequence_def
      defaultSequence_def addState_def)

text \<open>
  Claim C9, amended. The composite recovers a child with \<open>dynamic_cast\<close> and dereferences
  the result without a check. When both children are there and are leaves of the type
  \<^verbatim>\<open>CalculateFibonacciSeries\<close>, as the factory builds them, \<open>setOrder_seq\<close> forwards the order to
  both and \<open>getOrder_seq\<close> reads the order of the first. When a child is missing or of another
  type, the access is a null pointer dereference.
\<close>

theorem typed_child_access:
  "(dynamic_cast (getState name1 c) = None \<longrightarrow>
      setOrder_seq v c = Inl NullPointerDereference \<and> getOrder_seq c = Inl NullPointerDereference)
   \<and> (dynamic_cast (getState name2 c) = None \<longrightarrow> setOrder_seq v c = Inl NullPointerDereference)
   \<and> (\<forall>s1 s2. dynamic_cast (getState name1 c) = Some s1 \<longrightarrow> dynamic_cast (getState name2 c) = Some s2 \<longrightarrow>
         setOrder_seq v c = Inr (updateState name2 (setOrder v s2) (updateState name1 (setOrder v s1) c))
       \<and> getOrder_seq c = Inr (getOrder s1))"
  using name1_neq_name2
  by (auto simp add: setOrder_seq_def getOrder_seq_def getState_updateState_other split: option.splits)


theorem typed_child_access_witness:
  "(dynamic_cast (getState name1 defaultSequence) = None
      \<and> setOrder_seq 5 defaultSequence = Inl NullPointerDereference
      \<and> getOrder_seq defaultSequence = Inl NullPointerDereference)
   \<and> (\<exists>c0 w' s1 s2.
         createSequenceState ''Sequence'' world0 = (Some c0, w')
       \<and> dynamic_cast (getState name1 c0) = Some s1 \<and> dynamic_cast (getState name2 c0) = Some s2
       \<and> setOrder_seq 5 c0 = Inr (updateState name2 (setOrder 5 s2) (updateState name1 (setOrder 5 s1) c0))
       \<and> getOrder_seq c0 = Inr None)"
proof
  have e: "dynamic_cast (getState name1 defaultSequence) = None"
    by (simp add: getState_def defaultSequence_def)
  with typed_child_access [of defaultSequence 5]
  show "dynamic_cast (getState name1 defaultSequence) = None
      \<and> setOrder_seq 5 defaultSequence = Inl NullPointerDereference
      \<and> getOrder_seq defaultSequence = Inl NullPointerDereference"
    by blast
next
  obtain r w' where cr: "createSequenceState ''Sequence'' world0 = (r, w')"
    by (cases "createSequenceState ''Sequence'' world0")
  from createSequenceState_states [OF cr] obtain c0 s1 s2 t1 t2 where
    r: "r = Some c0" and n: "m_order s1 = None"
    and st: "states c0 = [(name1, FibonacciState s1, t1), (name2, FibonacciState s2, t2)]"
    by blast
  from st name1_neq_name2 have d:
    "dynamic_cast (getState name1 c0) = Some s1" "dynamic_cast (getState name2 c0) = Some s2"
    by (simp_all add: getState_def)
  with typed_child_access [of c0 5] have
    "setOrder_seq 5 c0 = Inr (updateState name2 (setOrder 5 s2) (updateState name1 (setOrder 5 s1) c0))"
    "getOrder_seq c0 = Inr (getOrder s1)"
    by blast+
  with cr r d n show "\<exists>c0 w' s1 s2.
         createSequenceState ''Sequence'' world0 = (Some c0, w')
       \<and> dynamic_cast (getState name1 c0) = Some s1 \<and> dynamic_cast (getState name2 c0) = Some s2
       \<and> setOrder_seq 5 c0 = Inr (updateState name2 (setOrder 5 s2) (updateState name1 (setOrder 5 s1) c0))
       \<and> getOrder_seq c0 = Inr None"
    by (auto simp add: getOrder_def)
qed

section \<open>The lock held while the feedback is written\<close>

text \<open>
  Claim C5, evaluated at a schedule of two threads. Thread 0 runs \<^verbatim>\<open>getProgressImpl\<close>: it
  takes the shared side and tests the pointer, which holds the feedback of the previous
  execution. Thread 1 runs \<^verbatim>\<open>runPreExecution\<close>: it takes the shared side as well, is let
  through, and resets the pointer. Thread 0 then dereferences the pointer and finds null:
  within one critical section it has seen two snapshots, and both threads hold the shared
  side while the write happens.
\<close>

theorem runPreExecution_write_is_not_exclusive:
  "map_option (\<lambda>sh. (map observed (threads sh), sharedHolders sh, uniqueHolder sh, cell sh))
     (runSchedule [0, 0, 1, 1, 0]
        (startThreads (Some feedback0) [getProgressImpl_accesses (Some 5), runPreExecution_accesses]))
   = Some ([[Some feedback0, None], []], [1, 0], None, None)"
  by (simp add: startThreads_def getProgressImpl_accesses_def runPreExecution_accesses_def
      stepThread_def)

text \<open>
  The feedback callback takes the exclusive side: while thread 0 is inside
  \<^verbatim>\<open>getProgressImpl\<close> the callback is blocked, and it writes only after thread 0 has left.
\<close>

lemma feedbackCb_write_is_exclusive:
  "runSchedule [0, 0, 1]
     (startThreads (Some feedback0) [getProgressImpl_accesses (Some 5), feedbackCb_accesses feedback1]) = None
   \<and> map_option (\<lambda>sh. (map observed (threads sh), cell sh))
       (runSchedule [0, 0, 0, 0, 1, 1, 1]
         (startThreads (Some feedback0) [getProgressImpl_accesses (Some 5), feedbackCb_accesses feedback1]))
     = Some ([[Some feedback0, Some feedback0], []], Some feedback1)"
  by (simp add: startThreads_def getProgressImpl_accesses_def feedbackCb_accesses_def
      stepThread_def)




section \<open>Preemption while the action is in flight\<close>

text \<open>The two parts of mid-execution, run one after the other, are \<open>runMidExecution\<close>.\<close>

lemma runMidExecution_split:
  "runMidExecution s w =
     (case beginMidExecution s w of
        Inl e \<Rightarrow> Inl e
      | Inr (Returned out, w2) \<Rightarrow> Inr (out, s, w2)
      | Inr (Waiting order c k, w2) \<Rightarrow> finishMidExecution order c k s w2)"
  by (simp add: runMidExecution_def beginMidExecution_def finishMidExecution_def clientExecute_def
      Let_def goalsSent_def split: option.splits)

text \<open>
  Claim C4, as stated, fails: the order is set, the goal is sent, the preemption request
  arrives while the execution thread waits and the cancellation is sent to the action
  client, and the action then terminates as faulted. The execution returns failure.
\<close>

theorem preemption_in_flight_may_fail:
  "map_sum id (\<lambda>(out, s', w'). (out, ioLog w')) (executePreempted (setOrder 5 defaultFibonacci) faultyWorld)
     = Inr (failure,
            [ClientCreated ''/fibonacci'', GoalSent ''/fibonacci'' \<lparr>goalOrder = 5\<rparr>,
             CancelSent ''/fibonacci'', ClientReleased ''/fibonacci''])"
  by (simp add: executePreempted_def runPreExecution_def beginMidExecution_def finishMidExecution_def
      onPreemptionRequest_def runPostExecution_def setOrder_def defaultFibonacci_def faultyWorld_def
      world0_def Let_def actionGoalSucceeded_def actionGoalCancelled_def addSimpleEntry_def
      addEntry_def createEntry_def goalsSent_def)

text \<open>
  Claim C4, amended. For an execution with the order set, a preemption request that
  arrives while mid-execution waits is forwarded to the action client: one cancellation
  is sent on the topic of the client, after the goal and before the client is released.
  The execution returns the outcome that the terminal result of the action decides:
  preemption when the action terminates as cancelled, failure when it terminates as
  faulted or timed out, success when it still succeeds.
\<close>

theorem preemption_follows_action_result:
  assumes "m_order s = Some v"
  shows "\<exists>s' w'.
           executePreempted s w =
             Inr (case replyOutcome (actionServer w (length (goalsSent w)) \<lparr>goalOrder = v\<rparr>) of
                    Succeeded \<Rightarrow> success
                  | Cancelled \<Rightarrow> preemption
                  | Faulted \<Rightarrow> failure
                  | TimedOut \<Rightarrow> failure,
                  s', w')
         \<and> ioLog w' =
             ioLog w @ [ClientCreated (m_action s), GoalSent (m_action s) \<lparr>goalOrder = v\<rparr>,
                        CancelSent (m_action s), ClientReleased (m_action s)]
         \<and> m_actionClient s' = None"
  using assms
  by (cases "replyOutcome (actionServer w (length (goalsSent w)) \<lparr>goalOrder = v\<rparr>)")
     (simp_all add: executePreempted_def runPreExecution_def beginMidExecution_def
        finishMidExecution_def onPreemptionRequest_def runPostExecution_def Let_def
        actionGoalSucceeded_def actionGoalCancelled_def addSimpleEntry_def addEntry_def
        createEntry_def goalsSent_def)

theorem preemption_follows_action_result_witness:
  "m_order (setOrder 5 defaultFibonacci) = Some 5
   \<and> (\<exists>s' w'.
         executePreempted (setOrder 5 defaultFibonacci) cancellingWorld = Inr (preemption, s', w')
       \<and> ioLog w' =
             [ClientCreated ''/fibonacci'', GoalSent ''/fibonacci'' \<lparr>goalOrder = 5\<rparr>,
              CancelSent ''/fibonacci'', ClientReleased ''/fibonacci'']
       \<and> m_actionClient s' = None)"
proof -
  have a: "m_order (setOrder 5 defaultFibonacci) = Some 5" by (simp add: setOrder_def)
  from preemption_follows_action_result [OF a, of cancellingWorld] a show ?thesis
    by (simp add: cancellingWorld_def world0_def setOrder_def defaultFibonacci_def)
qed


end
